theory Spec2Isabelle
  imports Main "HOL-Library.Sublist"
begin

section \<open>Strings\<close>

text \<open>
  A JavaScript string is a sequence of UTF-16 code units. A code unit is modelled as a
  natural number (below 65536 in every string the program can receive); the regular
  expressions of the detector carry no \<^verbatim>\<open>u\<close> flag, so they too work on code units.
  \<open>asc\<close> turns an ASCII literal into such a string.
\<close>

type_synonym jsstring = "nat list"

definition asc :: "string \<Rightarrow> jsstring" where
  "asc cs = map of_char cs"

text \<open>\<^verbatim>\<open>String.prototype.includes\<close>: the argument occurs as a contiguous run of units.\<close>

fun includes_str :: "jsstring \<Rightarrow> jsstring \<Rightarrow> bool" where
  "includes_str [] w = (w = [])"
| "includes_str (c # cs) w = (prefix w (c # cs) \<or> includes_str cs w)"

text \<open>
  \<^verbatim>\<open>String.prototype.toLowerCase\<close>, unit by unit. The mapping is written out for every
  character whose lower-case form the detector can observe: the detector inspects the
  lowered text only for ASCII units, white space, Latin-1 letters and the Cyrillic letters
  U+0430 to U+044F, and the characters that Unicode lowers into those sets are exactly
  A-Z, U+0130 (which becomes \<open>i\<close> followed by U+0307), U+212A, U+00C0 to U+00DE without
  U+00D7, U+0178, U+1E9E, U+212B and U+0410 to U+042F. Every other unit is kept: its
  lower-case form lies outside everything the detector tests.
\<close>

definition lower_unit :: "nat \<Rightarrow> jsstring" where
  "lower_unit c =
     (if (0x41 \<le> c \<and> c \<le> 0x5A) \<or> (0xC0 \<le> c \<and> c \<le> 0xDE \<and> c \<noteq> 0xD7)
         \<or> (0x410 \<le> c \<and> c \<le> 0x42F) then [c + 0x20]
      else if c = 0x130 then [0x69, 0x307]
      else if c = 0x178 then [0xFF]
      else if c = 0x1E9E then [0xDF]
      else if c = 0x212A then [0x6B]
      else if c = 0x212B then [0xE5]
      else [c])"

definition toLowerCase :: "jsstring \<Rightarrow> jsstring" where
  "toLowerCase s = concat (map lower_unit s)"

section \<open>Regular expressions\<close>

text \<open>
  A character class is a list of inclusive ranges of code units; \<^verbatim>\<open>\w\<close> and \<^verbatim>\<open>\s\<close> are the
  classes ECMAScript defines for them.
\<close>

type_synonym cclass = "(nat \<times> nat) list"

fun in_class :: "nat \<Rightarrow> cclass \<Rightarrow> bool" where
  "in_class c [] = False"
| "in_class c ((lo, hi) # rs) = ((lo \<le> c \<and> c \<le> hi) \<or> in_class c rs)"

definition word_class :: cclass where
  "word_class = [(0x30, 0x39), (0x41, 0x5A), (0x5F, 0x5F), (0x61, 0x7A)]"

definition space_class :: cclass where
  "space_class =
     [(0x09, 0x0D), (0x20, 0x20), (0xA0, 0xA0), (0x1680, 0x1680), (0x2000, 0x200A),
      (0x2028, 0x2029), (0x202F, 0x202F), (0x205F, 0x205F), (0x3000, 0x3000), (0xFEFF, 0xFEFF)]"

text \<open>
  The regular expressions of the program are sequences of these atoms: \<^verbatim>\<open>\b\<close>, a literal,
  an alternation of literals, one unit of a class, and one or more units of a class.
\<close>

datatype atom = WordB | Lit jsstring | Alt "jsstring list" | Cls cclass | Plus cclass

text \<open>
  A position in the subject string: the unit before it, if any, and the units from it on.
\<close>

type_synonym cursor = "nat option \<times> jsstring"

fun is_word_char :: "nat option \<Rightarrow> bool" where
  "is_word_char None = False"
| "is_word_char (Some c) = in_class c word_class"

fun next_unit :: "jsstring \<Rightarrow> nat option" where
  "next_unit [] = None"
| "next_unit (c # cs) = Some c"

definition word_boundary :: "cursor \<Rightarrow> bool" where
  "word_boundary cur = (is_word_char (fst cur) \<noteq> is_word_char (next_unit (snd cur)))"

text \<open>
  With the \<^verbatim>\<open>i\<close> flag (and no \<^verbatim>\<open>u\<close> flag) two units match when their canonical forms
  agree. The canonical form of a unit is its upper-case form, except that a unit outside
  ASCII never becomes an ASCII unit; so an ASCII letter of a pattern matches exactly its two
  ASCII cases. Only literals occur in the one expression that has the flag.
\<close>

definition canonicalize :: "nat \<Rightarrow> nat" where
  "canonicalize c = (if 0x61 \<le> c \<and> c \<le> 0x7A then c - 0x20 else c)"

definition same_unit :: "bool \<Rightarrow> nat \<Rightarrow> nat \<Rightarrow> bool" where
  "same_unit ignoreCase a c = (if ignoreCase then canonicalize a = canonicalize c else a = c)"

fun match_lit :: "bool \<Rightarrow> jsstring \<Rightarrow> cursor \<Rightarrow> cursor option" where
  "match_lit ic [] cur = Some cur"
| "match_lit ic (a # w) (p, []) = None"
| "match_lit ic (a # w) (p, c # cs) =
     (if same_unit ic a c then match_lit ic w (Some c, cs) else None)"

text \<open>All the ways to consume one or more units of a class, the longest first.\<close>

fun match_plus :: "cclass \<Rightarrow> cursor \<Rightarrow> cursor list" where
  "match_plus cl (p, []) = []"
| "match_plus cl (p, c # cs) =
     (if in_class c cl then match_plus cl (Some c, cs) @ [(Some c, cs)] else [])"

text \<open>
  The positions at which a match of an atom, or of a sequence of atoms, that starts at the
  cursor can end. Backtracking explores exactly these.
\<close>

fun match_atom :: "bool \<Rightarrow> atom \<Rightarrow> cursor \<Rightarrow> cursor list" where
  "match_atom ic WordB cur = (if word_boundary cur then [cur] else [])"
| "match_atom ic (Lit w) cur = (case match_lit ic w cur of None \<Rightarrow> [] | Some e \<Rightarrow> [e])"
| "match_atom ic (Alt ws) cur = List.map_filter (\<lambda>w. match_lit ic w cur) ws"
| "match_atom ic (Cls cl) (p, []) = []"
| "match_atom ic (Cls cl) (p, c # cs) = (if in_class c cl then [(Some c, cs)] else [])"
| "match_atom ic (Plus cl) cur = match_plus cl cur"

fun match_seq :: "bool \<Rightarrow> atom list \<Rightarrow> cursor \<Rightarrow> cursor list" where
  "match_seq ic [] cur = [cur]"
| "match_seq ic (a # r) cur = concat (map (match_seq ic r) (match_atom ic a cur))"

text \<open>The search tries every start position from the left, the end of the string included.\<close>

fun search :: "bool \<Rightarrow> atom list \<Rightarrow> cursor \<Rightarrow> bool" where
  "search ic r (p, []) = (match_seq ic r (p, []) \<noteq> [])"
| "search ic r (p, c # cs) = (match_seq ic r (p, c # cs) \<noteq> [] \<or> search ic r (Some c, cs))"

text \<open>
  \<^verbatim>\<open>regex.test(s)\<close> for a regular expression created by the literal just before the call
  (so a \<^verbatim>\<open>g\<close> flag starts at index 0), and \<^verbatim>\<open>s.match(regex)\<close> read as a truth value.
\<close>

definition regex_test :: "bool \<Rightarrow> atom list \<Rightarrow> jsstring \<Rightarrow> bool" where
  "regex_test ignoreCase r s = search ignoreCase r (None, s)"


section \<open>The language catalog\<close>

text \<open>
  The interface \<^verbatim>\<open>Language\<close> has the fields \<^verbatim>\<open>code\<close> and \<^verbatim>\<open>name\<close>; the further fields
  of a catalog entry (\<^verbatim>\<open>flag\<close>, \<^verbatim>\<open>rtl\<close>) are never read by the detector and are the
  extension part of the record. \<^verbatim>\<open>languages.find(l => l.code === c)\<close> yields the first entry
  with that code, or \<^verbatim>\<open>undefined\<close> (here \<open>None\<close>) when there is none.
\<close>

record language =
  code :: jsstring
  name :: jsstring

definition find_code :: "'a language_scheme list \<Rightarrow> jsstring \<Rightarrow> 'a language_scheme option" where
  "find_code langs c = List.find (\<lambda>l. code l = c) langs"

text \<open>
  Modelled from the spec: the module \<^verbatim>\<open>data/languages\<close>, from which the translation service
  imports \<^verbatim>\<open>languages\<close>, is not among the sources. The spec lists the codes the catalog
  exposes at minimum, in this order, each with a display name; the names are the English
  names of the languages.
\<close>

definition languages :: "language list" where
  "languages =
     [\<lparr>code = asc ''auto'', name = asc ''Auto-detect''\<rparr>,
      \<lparr>code = asc ''en'', name = asc ''English''\<rparr>,
      \<lparr>code = asc ''hi'', name = asc ''Hindi''\<rparr>,
      \<lparr>code = asc ''es'', name = asc ''Spanish''\<rparr>,
      \<lparr>code = asc ''fr'', name = asc ''French''\<rparr>,
      \<lparr>code = asc ''de'', name = asc ''German''\<rparr>,
      \<lparr>code = asc ''it'', name = asc ''Italian''\<rparr>,
      \<lparr>code = asc ''pt'', name = asc ''Portuguese''\<rparr>,
      \<lparr>code = asc ''ru'', name = asc ''Russian''\<rparr>,
      \<lparr>code = asc ''ar'', name = asc ''Arabic''\<rparr>,
      \<lparr>code = asc ''ja'', name = asc ''Japanese''\<rparr>,
      \<lparr>code = asc ''ko'', name = asc ''Korean''\<rparr>,
      \<lparr>code = asc ''zh'', name = asc ''Chinese''\<rparr>]"

text \<open>
  The list \<^verbatim>\<open>languages\<close> that the component \<^verbatim>\<open>App\<close> declares for its own selector. It is
  local to that file and is not the module the translation service imports.
\<close>

definition app_languages :: "language list" where
  "app_languages =
     [\<lparr>code = asc ''auto'', name = asc ''Auto-detect''\<rparr>,
      \<lparr>code = asc ''en'', name = asc ''English''\<rparr>,
      \<lparr>code = asc ''hi'', name = asc ''Hindi''\<rparr>,
      \<lparr>code = asc ''es'', name = asc ''Spanish''\<rparr>,
      \<lparr>code = asc ''fr'', name = asc ''French''\<rparr>,
      \<lparr>code = asc ''de'', name = asc ''German''\<rparr>,
      \<lparr>code = asc ''zh'', name = asc ''Chinese''\<rparr>,
      \<lparr>code = asc ''ja'', name = asc ''Japanese''\<rparr>,
      \<lparr>code = asc ''ru'', name = asc ''Russian''\<rparr>]"

section \<open>The transliteration matcher\<close>

definition hindiWords :: "jsstring list" where
  "hindiWords =
    [asc ''namaste'', asc ''namaskar'', asc ''adaab'', asc ''sat sri akal'', asc ''aap'',
     asc ''tum'', asc ''main'', asc ''hum'', asc ''kya'', asc ''kaise'', asc ''kaun'',
     asc ''kahan'', asc ''kab'', asc ''kyun'', asc ''hai'', asc ''hain'', asc ''tha'', asc ''thi'',
     asc ''the'', asc ''hoga'', asc ''hogi'', asc ''honge'', asc ''accha'', asc ''theek'',
     asc ''sahi'', asc ''galat'', asc ''bura'', asc ''sundar'', asc ''khushi'', asc ''dukh'',
     asc ''paani'', asc ''khana'', asc ''ghar'', asc ''school'', asc ''kaam'', asc ''paise'',
     asc ''rupaye'', asc ''mata'', asc ''pita'', asc ''bhai'', asc ''behen'', asc ''beta'',
     asc ''beti'', asc ''dost'', asc ''sahab'', asc ''dhanyawad'', asc ''shukriya'', asc ''maaf'',
     asc ''sorry'', asc ''please'', asc ''kripaya'', asc ''haan'', asc ''nahi'', asc ''bilkul'',
     asc ''shayad'', asc ''zaroor'', asc ''kabhi'', asc ''hamesha'', asc ''ek'', asc ''do'',
     asc ''teen'', asc ''char'', asc ''paanch'', asc ''chhe'', asc ''saat'', asc ''aath'',
     asc ''nau'', asc ''das'', asc ''subah'', asc ''dopahar'', asc ''shaam'', asc ''raat'',
     asc ''kal'', asc ''aaj'', asc ''parso'', asc ''kya haal'', asc ''kaise ho'',
     asc ''kya kar rahe'', asc ''kahan ja rahe'', asc ''kitna paisa'', asc ''bahut accha'',
     asc ''bahut bura'', asc ''thoda sa'', asc ''zyada'', asc ''kam'', asc ''poora'', asc ''jana'',
     asc ''aana'', asc ''khana'', asc ''peena'', asc ''sona'', asc ''uthna'', asc ''baithna'',
     asc ''khada'', asc ''dekhna'', asc ''sunna'', asc ''bolna'', asc ''kehna'', asc ''samjhna'',
     asc ''padhna'', asc ''likhna'', asc ''khelna'', asc ''hasna'', asc ''rona'', asc ''gaana'',
     asc ''naachna'', asc ''daudna'', asc ''chalna'']"

text \<open>
  \<^verbatim>\<open>/\b\w+ji\b/g\<close>, \<^verbatim>\<open>/\b\w+wala\b/g\<close>, \<^verbatim>\<open>/\b\w+kar\b/g\<close>, then \<^verbatim>\<open>/\bke\s+\w+\b/g\<close> and its
  likes for \<open>ki\<close>, \<open>ka\<close>, \<open>mein\<close>, \<open>se\<close>, \<open>ko\<close>, then \<^verbatim>\<open>/\brahe\s+hain\b/g\<close>,
  \<^verbatim>\<open>/\braha\s+hai\b/g\<close>, \<^verbatim>\<open>/\bho\s+gaya\b/g\<close> and \<^verbatim>\<open>/\bkar\s+diya\b/g\<close>.
\<close>

definition hindiPatterns :: "atom list list" where
  "hindiPatterns =
    [[WordB, Plus word_class, Lit (asc ''ji''), WordB],
     [WordB, Plus word_class, Lit (asc ''wala''), WordB],
     [WordB, Plus word_class, Lit (asc ''kar''), WordB],
     [WordB, Lit (asc ''ke''), Plus space_class, Plus word_class, WordB],
     [WordB, Lit (asc ''ki''), Plus space_class, Plus word_class, WordB],
     [WordB, Lit (asc ''ka''), Plus space_class, Plus word_class, WordB],
     [WordB, Lit (asc ''mein''), Plus space_class, Plus word_class, WordB],
     [WordB, Lit (asc ''se''), Plus space_class, Plus word_class, WordB],
     [WordB, Lit (asc ''ko''), Plus space_class, Plus word_class, WordB],
     [WordB, Lit (asc ''rahe''), Plus space_class, Lit (asc ''hain''), WordB],
     [WordB, Lit (asc ''raha''), Plus space_class, Lit (asc ''hai''), WordB],
     [WordB, Lit (asc ''ho''), Plus space_class, Lit (asc ''gaya''), WordB],
     [WordB, Lit (asc ''kar''), Plus space_class, Lit (asc ''diya''), WordB]]"

definition devanagariSounds :: "jsstring list" where
  "devanagariSounds =
    [asc ''bh'', asc ''ch'', asc ''dh'', asc ''gh'', asc ''jh'', asc ''kh'', asc ''ph'', asc ''rh'',
     asc ''sh'', asc ''th'', asc ''zh'', asc ''aa'', asc ''ee'', asc ''oo'', asc ''ai'', asc ''au'',
     asc ''ri'', asc ''ru'']"

text \<open>
  The three loops of the matcher: the first vocabulary word that the lowered text includes,
  the first pattern that matches it, and the count of the fragments it includes (one more for
  each fragment of the list that occurs).
\<close>

definition containsHindiWord :: "jsstring \<Rightarrow> bool" where
  "containsHindiWord lowerText = list_ex (includes_str lowerText) hindiWords"

definition matchesHindiPattern :: "jsstring \<Rightarrow> bool" where
  "matchesHindiPattern lowerText =
     list_ex (\<lambda>pattern. regex_test False pattern lowerText) hindiPatterns"

definition soundCount :: "jsstring \<Rightarrow> nat" where
  "soundCount lowerText = length (filter (includes_str lowerText) devanagariSounds)"

definition isTransliteratedHindi :: "jsstring \<Rightarrow> bool" where
  "isTransliteratedHindi text =
     (let lowerText = toLowerCase text in
      if containsHindiWord lowerText then True
      else if matchesHindiPattern lowerText then True
      else 2 \<le> soundCount lowerText)"

section \<open>The heuristic detector\<close>

definition englishWords :: "jsstring list" where
  "englishWords =
    [asc ''the'', asc ''and'', asc ''or'', asc ''but'', asc ''in'', asc ''on'', asc ''at'',
     asc ''to'', asc ''for'', asc ''of'', asc ''with'', asc ''by'', asc ''from'', asc ''up'',
     asc ''about'', asc ''into'', asc ''over'', asc ''after'', asc ''is'', asc ''are'', asc ''was'',
     asc ''were'', asc ''be'', asc ''been'', asc ''being'', asc ''have'', asc ''has'', asc ''had'',
     asc ''do'', asc ''does'', asc ''did'', asc ''will'', asc ''would'', asc ''could'',
     asc ''should'', asc ''may'', asc ''might'', asc ''can'', asc ''must'', asc ''shall'',
     asc ''this'', asc ''that'', asc ''these'', asc ''those'', asc ''i'', asc ''you'', asc ''he'',
     asc ''she'', asc ''it'', asc ''we'', asc ''they'', asc ''me'', asc ''him'', asc ''her'',
     asc ''us'', asc ''them'', asc ''my'', asc ''your'', asc ''his'', asc ''her'', asc ''its'',
     asc ''our'', asc ''their'', asc ''a'', asc ''an'', asc ''not'', asc ''no'', asc ''yes'',
     asc ''hello'', asc ''hi'', asc ''thank'', asc ''thanks'', asc ''please'', asc ''sorry'',
     asc ''excuse'', asc ''welcome'']"

text \<open>\<^verbatim>\<open>text.match(/\b(the|and|...)\b/gi)\<close> finds at least one match.\<close>

definition isLikelyEnglish :: "jsstring \<Rightarrow> bool" where
  "isLikelyEnglish text = regex_test True [WordB, Alt englishWords, WordB] text"

definition spanishWords :: "jsstring list" where
  "spanishWords =
    [asc ''el'', asc ''la'', asc ''los'', asc ''las'', asc ''un'', asc ''una'', asc ''de'',
     asc ''del'', asc ''en'', asc ''con'', asc ''por'', asc ''para'', asc ''que'', asc ''es'',
     asc ''son'', asc ''est'' @ [0xE1], asc ''est'' @ [0xE1] @ asc ''n'', asc ''hola'',
     asc ''gracias'', asc ''por favor'']"

definition frenchWords :: "jsstring list" where
  "frenchWords =
    [asc ''le'', asc ''la'', asc ''les'', asc ''un'', asc ''une'', asc ''de'', asc ''du'',
     asc ''des'', asc ''et'', asc ''ou'', asc ''avec'', asc ''pour'', asc ''que'', asc ''est'',
     asc ''sont'', asc ''bonjour'', asc ''merci'',
     asc ''s'' @ [0x27] @ asc ''il vous pla'' @ [0xEE] @ asc ''t'']"

definition germanWords :: "jsstring list" where
  "germanWords =
    [asc ''der'', asc ''die'', asc ''das'', asc ''ein'', asc ''eine'', asc ''und'', asc ''oder'',
     asc ''mit'', asc ''f'' @ [0xFC] @ asc ''r'', asc ''dass'', asc ''ist'', asc ''sind'',
     asc ''hallo'', asc ''danke'', asc ''bitte'']"

definition italianWords :: "jsstring list" where
  "italianWords =
    [asc ''il'', asc ''la'', asc ''lo'', asc ''gli'', asc ''le'', asc ''un'', asc ''una'',
     asc ''di'', asc ''del'', asc ''della'', asc ''e'', asc ''o'', asc ''con'', asc ''per'',
     asc ''che'', [0xE8], asc ''sono'', asc ''ciao'', asc ''grazie'', asc ''prego'']"

definition portugueseWords :: "jsstring list" where
  "portugueseWords =
    [asc ''o'', asc ''a'', asc ''os'', asc ''as'', asc ''um'', asc ''uma'', asc ''de'', asc ''do'',
     asc ''da'', asc ''dos'', asc ''das'', asc ''e'', asc ''ou'', asc ''com'', asc ''para'',
     asc ''que'', [0xE9], asc ''s'' @ [0xE3] @ asc ''o'', asc ''ol'' @ [0xE1], asc ''obrigado'',
     asc ''por favor'']"

text \<open>The character classes of the script and diacritic tests, in the order of the source.\<close>

definition devanagari_letters :: cclass where "devanagari_letters = [(0x905, 0x939)]"
definition devanagari_digits :: cclass where "devanagari_digits = [(0x966, 0x96F)]"
definition arabic_letters :: cclass where "arabic_letters = [(0x627, 0x64A)]"
definition arabic_digits :: cclass where "arabic_digits = [(0x660, 0x669)]"
definition cyrillic_small :: cclass where "cyrillic_small = [(0x430, 0x44F)]"
definition cyrillic_capital :: cclass where "cyrillic_capital = [(0x410, 0x42F)]"

definition japanese_class :: cclass where
  "japanese_class =
     [(0x3072, 0x3072), (0x3089, 0x3089), (0x304C, 0x304C), (0x306A, 0x306A), (0x30AB, 0x30AB),
      (0x30BF, 0x30BF), (0x30AB, 0x30AB), (0x30CA, 0x30CA), (0x4E00, 0x9FAF)]"

definition hangul_class :: cclass where "hangul_class = [(0xAC00, 0xD7A3)]"
definition ideograph_class :: cclass where "ideograph_class = [(0x4E00, 0x9FAF)]"

definition spanish_class :: cclass where
  "spanish_class =
     [(0xA1, 0xA1), (0xBF, 0xBF), (0xF1, 0xF1), (0xE1, 0xE1), (0xE9, 0xE9), (0xED, 0xED),
      (0xF3, 0xF3), (0xFA, 0xFA), (0xFC, 0xFC)]"

definition french_class :: cclass where
  "french_class =
     [(0xE0, 0xE0), (0xE2, 0xE2), (0xE4, 0xE4), (0xE9, 0xE9), (0xE8, 0xE8), (0xEA, 0xEA),
      (0xEB, 0xEB), (0xEE, 0xEE), (0xEF, 0xEF), (0xF4, 0xF4), (0xF6, 0xF6), (0xF9, 0xF9),
      (0xFB, 0xFB), (0xFC, 0xFC), (0xFF, 0xFF), (0xE7, 0xE7)]"

definition german_class :: cclass where
  "german_class = [(0xE4, 0xE4), (0xF6, 0xF6), (0xFC, 0xFC), (0xDF, 0xDF)]"

definition italian_class :: cclass where
  "italian_class =
     [(0xE0, 0xE0), (0xE8, 0xE8), (0xE9, 0xE9), (0xEC, 0xEC), (0xED, 0xED), (0xEE, 0xEE),
      (0xF2, 0xF2), (0xF3, 0xF3), (0xF9, 0xF9)]"

definition portuguese_class :: cclass where
  "portuguese_class =
     [(0xE3, 0xE3), (0xF5, 0xF5), (0xE1, 0xE1), (0xE9, 0xE9), (0xED, 0xED), (0xF3, 0xF3),
      (0xFA, 0xFA), (0xE2, 0xE2), (0xEA, 0xEA), (0xEE, 0xEE), (0xF4, 0xF4), (0xFB, 0xFB),
      (0xE0, 0xE0), (0xE7, 0xE7)]"

definition heuristicLanguageDetection ::
  "'a language_scheme list \<Rightarrow> jsstring \<Rightarrow> 'a language_scheme option" where
  "heuristicLanguageDetection langs text =
     (let lowerText = toLowerCase text in
      if isTransliteratedHindi text then find_code langs (asc ''hi'')
      else if regex_test False [Cls devanagari_letters] text
              \<or> regex_test False [Cls devanagari_digits] text then find_code langs (asc ''hi'')
      else if regex_test False [Cls arabic_letters] text
              \<or> regex_test False [Cls arabic_digits] text then find_code langs (asc ''ar'')
      else if regex_test False [Cls cyrillic_small] lowerText
              \<or> regex_test False [Cls cyrillic_capital] text then find_code langs (asc ''ru'')
      else if regex_test False [Cls japanese_class] text then find_code langs (asc ''ja'')
      else if regex_test False [Cls hangul_class] text then find_code langs (asc ''ko'')
      else if regex_test False [Cls ideograph_class] text then find_code langs (asc ''zh'')
      else if regex_test False [Cls spanish_class] lowerText
              \<or> regex_test False [WordB, Alt spanishWords, WordB] lowerText
           then find_code langs (asc ''es'')
      else if regex_test False [Cls french_class] lowerText
              \<or> regex_test False [WordB, Alt frenchWords, WordB] lowerText
           then find_code langs (asc ''fr'')
      else if regex_test False [Cls german_class] lowerText
              \<or> regex_test False [WordB, Alt germanWords, WordB] lowerText
           then find_code langs (asc ''de'')
      else if regex_test False [Cls italian_class] lowerText
              \<or> regex_test False [WordB, Alt italianWords, WordB] lowerText
           then find_code langs (asc ''it'')
      else if regex_test False [Cls portuguese_class] lowerText
              \<or> regex_test False [WordB, Alt portugueseWords, WordB] lowerText
           then find_code langs (asc ''pt'')
      else find_code langs (asc ''en''))"

section \<open>The remote-assisted detector\<close>

text \<open>
  What a statement of the \<^verbatim>\<open>try\<close> block can throw: reading a property of \<^verbatim>\<open>undefined\<close> or
  \<^verbatim>\<open>null\<close> and a failed \<^verbatim>\<open>fetch\<close> (TypeError), \<^verbatim>\<open>encodeURIComponent\<close> on a lone surrogate
  (URIError), a body that is not JSON (SyntaxError).
\<close>

datatype js_error = TypeError | URIError | SyntaxError

text \<open>
  \<^verbatim>\<open>encodeURIComponent\<close>: the unreserved ASCII units stay, every other code point becomes the
  percent-escaped bytes of its UTF-8 form, and a surrogate that is not part of a pair throws.
\<close>

definition unreserved :: "nat \<Rightarrow> bool" where
  "unreserved c =
     ((0x41 \<le> c \<and> c \<le> 0x5A) \<or> (0x61 \<le> c \<and> c \<le> 0x7A) \<or> (0x30 \<le> c \<and> c \<le> 0x39)
      \<or> c \<in> set [0x2D, 0x5F, 0x2E, 0x21, 0x7E, 0x2A, 0x27, 0x28, 0x29])"

definition hex_digit :: "nat \<Rightarrow> nat" where
  "hex_digit d = (if d < 10 then 0x30 + d else 0x41 + (d - 10))"

definition percent :: "nat \<Rightarrow> jsstring" where
  "percent b = [0x25, hex_digit (b div 16), hex_digit (b mod 16)]"

definition utf8 :: "nat \<Rightarrow> nat list" where
  "utf8 cp =
     (if cp < 0x80 then [cp]
      else if cp < 0x800 then [0xC0 + cp div 0x40, 0x80 + cp mod 0x40]
      else if cp < 0x10000 then
        [0xE0 + cp div 0x1000, 0x80 + (cp div 0x40) mod 0x40, 0x80 + cp mod 0x40]
      else [0xF0 + cp div 0x40000, 0x80 + (cp div 0x1000) mod 0x40,
            0x80 + (cp div 0x40) mod 0x40, 0x80 + cp mod 0x40])"

definition escape :: "nat \<Rightarrow> jsstring" where
  "escape cp = concat (map percent (utf8 cp))"

fun encodeURIComponent :: "jsstring \<Rightarrow> js_error + jsstring" where
  "encodeURIComponent [] = Inr []"
| "encodeURIComponent [c] =
     (if unreserved c then Inr [c]
      else if 0xD800 \<le> c \<and> c \<le> 0xDFFF then Inl URIError
      else Inr (escape c))"
| "encodeURIComponent (c # d # ds) =
     (if unreserved c then map_sum id ((#) c) (encodeURIComponent (d # ds))
      else if 0xDC00 \<le> c \<and> c \<le> 0xDFFF then Inl URIError
      else if 0xD800 \<le> c \<and> c \<le> 0xDBFF then
        (if 0xDC00 \<le> d \<and> d \<le> 0xDFFF
         then map_sum id ((@) (escape (0x10000 + (c - 0xD800) * 0x400 + (d - 0xDC00))))
                (encodeURIComponent ds)
         else Inl URIError)
      else map_sum id ((@) (escape c)) (encodeURIComponent (d # ds)))"

text \<open>
  The world outside: \<^verbatim>\<open>fetch(url)\<close> throws or yields a response, whose \<^verbatim>\<open>ok\<close> flag is read
  and whose \<^verbatim>\<open>json()\<close> throws or yields the parsed body. Of the body the code reads whether
  it is \<^verbatim>\<open>null\<close> (then reading a property throws), its \<^verbatim>\<open>responseStatus\<close> and whether its
  \<^verbatim>\<open>responseData\<close> is truthy.
\<close>

datatype payload = Null | Data (responseStatus: "int option") (responseData: bool)

record response =
  ok :: bool
  json :: "js_error + payload"

type_synonym fetch = "jsstring \<Rightarrow> js_error + response"

definition baseUrl :: jsstring where
  "baseUrl = asc ''https://api.mymemory.translated.net/get''"

text \<open>
  A run of the detector yields what the \<^verbatim>\<open>try\<close> block returned or threw, and the URLs it
  fetched.
\<close>

definition detect_try ::
  "'a language_scheme list \<Rightarrow> fetch \<Rightarrow> jsstring
     \<Rightarrow> (js_error + 'a language_scheme option) \<times> jsstring list" where
  "detect_try langs fetch text =
     (let heuristicResult = heuristicLanguageDetection langs text in
      case heuristicResult of
        None \<Rightarrow> (Inl TypeError, [])
      | Some h \<Rightarrow>
          if code h \<noteq> asc ''en'' \<or> isLikelyEnglish text then (Inr heuristicResult, [])
          else (case encodeURIComponent text of
              Inl e \<Rightarrow> (Inl e, [])
            | Inr q \<Rightarrow>
                let url = baseUrl @ asc ''?q='' @ q @ asc ''&langpair=auto|en'' in
                (case fetch url of
                   Inl e \<Rightarrow> (Inl e, [url])
                 | Inr response \<Rightarrow>
                     if \<not> ok response then (Inr heuristicResult, [url])
                     else (case json response of
                         Inl e \<Rightarrow> (Inl e, [url])
                       | Inr Null \<Rightarrow> (Inl TypeError, [url])
                       | Inr (Data status rdata) \<Rightarrow>
                           if status = Some 200 \<and> rdata then (Inr heuristicResult, [url])
                           else (Inr heuristicResult, [url])))))"

text \<open>
  The \<^verbatim>\<open>catch\<close> block logs and returns the heuristic result; nothing in it throws, so the
  promise always resolves, with a language or with \<^verbatim>\<open>undefined\<close>.
\<close>

definition detectLanguage ::
  "'a language_scheme list \<Rightarrow> fetch \<Rightarrow> jsstring
     \<Rightarrow> (js_error + 'a language_scheme option) \<times> jsstring list" where
  "detectLanguage langs fetch text =
     (case detect_try langs fetch text of
        (Inl error, requests) \<Rightarrow> (Inr (heuristicLanguageDetection langs text), requests)
      | (Inr result, requests) \<Rightarrow> (Inr result, requests))"


section \<open>Inputs and predicates used in the properties\<close>

text \<open>Remote behaviours: no network, an HTTP error status, a body without a result.\<close>

definition offline :: fetch where
  "offline url = Inl TypeError"

definition http_error :: fetch where
  "http_error url = Inr \<lparr>ok = False, json = Inl SyntaxError\<rparr>"

definition no_result :: fetch where
  "no_result url = Inr \<lparr>ok = True, json = Inr (Data (Some 403) False)\<rparr>"

text \<open>
  The remote call is inconclusive: it throws, the response is not OK, the body cannot be
  read, or it lacks status 200 with data.
\<close>

definition inconclusive :: "js_error + response \<Rightarrow> bool" where
  "inconclusive r =
     (case r of
        Inl e \<Rightarrow> True
      | Inr resp \<Rightarrow>
          \<not> ok resp \<or>
          (case json resp of
             Inl e \<Rightarrow> True
           | Inr Null \<Rightarrow> True
           | Inr (Data status rdata) \<Rightarrow> \<not> (status = Some 200 \<and> rdata)))"

definition always_inconclusive :: "fetch \<Rightarrow> bool" where
  "always_inconclusive fetch = (\<forall>url. inconclusive (fetch url))"

text \<open>A string has a unit of a class; a string has units of a class only.\<close>

definition has :: "cclass \<Rightarrow> jsstring \<Rightarrow> bool" where
  "has cl s = (\<exists>c\<in>set s. in_class c cl)"

definition only :: "cclass \<Rightarrow> jsstring \<Rightarrow> bool" where
  "only cl s = (\<forall>c\<in>set s. in_class c cl)"

text \<open>
  The Hiragana and Katakana blocks, the Devanagari block, the two Devanagari ranges the
  detector tests, the ranges of the three script tests that come before the Japanese one,
  and the Cyrillic letters of both cases.
\<close>

definition kana_class :: cclass where
  "kana_class = [(0x3040, 0x309F), (0x30A0, 0x30FF)]"

definition devanagari_block :: cclass where
  "devanagari_block = [(0x900, 0x97F)]"

definition devanagari_tested :: cclass where
  "devanagari_tested = [(0x905, 0x939), (0x966, 0x96F)]"

definition earlier_scripts :: cclass where
  "earlier_scripts =
     [(0x905, 0x939), (0x966, 0x96F), (0x627, 0x64A), (0x660, 0x669), (0x410, 0x44F)]"

definition cyrillic_letters :: cclass where
  "cyrillic_letters = [(0x410, 0x44F)]"

text \<open>The fragments of the phonetic list that occur in a lowered text.\<close>

definition fragments_in :: "jsstring \<Rightarrow> jsstring set" where
  "fragments_in lowerText = {f \<in> set devanagariSounds. includes_str lowerText f}"

text \<open>Sample texts, as UTF-16 code units.\<close>

definition konnichiwa_sekai :: jsstring where
  "konnichiwa_sekai = [0x3053, 0x3093, 0x306B, 0x3061, 0x306F, 0x4E16, 0x754C]"

definition nihao_shijie :: jsstring where
  "nihao_shijie = [0x4F60, 0x597D, 0x4E16, 0x754C]"

definition sekai_namaste :: jsstring where
  "sekai_namaste = [0x4E16, 0x754C, 0x306F] @ asc '' namaste''"

definition om_sign :: jsstring where
  "om_sign = [0x950]"

definition namaste_devanagari :: jsstring where
  "namaste_devanagari = [0x928, 0x92E, 0x938, 0x94D, 0x924, 0x947]"

definition marhaba :: jsstring where
  "marhaba = [0x645, 0x631, 0x62D, 0x628, 0x627]"

definition el_nino_kya :: jsstring where
  "el_nino_kya = asc ''el ni'' @ [0xF1] @ asc ''o kya''"

definition blanks :: jsstring where
  "blanks = [0x20, 0x09, 0x3000, 0x0A]"

definition lang :: "string \<Rightarrow> string \<Rightarrow> language" where
  "lang c n = \<lparr>code = asc c, name = asc n\<rparr>"

text \<open>
  The codes the heuristic looks up, in the order of its branches, and a catalog that has an
  entry for each code of a list.
\<close>

definition heuristic_codes :: "jsstring list" where
  "heuristic_codes =
     map asc [''hi'', ''ar'', ''ru'', ''ja'', ''ko'', ''zh'', ''es'', ''fr'', ''de'', ''it'',
              ''pt'', ''en'']"

definition provides :: "'a language_scheme list \<Rightarrow> jsstring list \<Rightarrow> bool" where
  "provides langs codes = list_all (\<lambda>c. find_code langs c \<noteq> None) codes"

text \<open>No range of the first class meets a range of the second.\<close>

definition ranges_apart :: "cclass \<Rightarrow> cclass \<Rightarrow> bool" where
  "ranges_apart a b =
     list_all (\<lambda>(lo, hi). list_all (\<lambda>(lo', hi'). hi < lo' \<or> hi' < lo) b) a"

section \<open>The matcher for regular expressions\<close>

lemma in_class_iff: "in_class c cl = (\<exists>(lo, hi)\<in>set cl. lo \<le> c \<and> c \<le> hi)"
  by (induction cl) auto

lemma ranges_apartD: "ranges_apart a b \<Longrightarrow> in_class c a \<Longrightarrow> \<not> in_class c b"
  by (fastforce simp: ranges_apart_def in_class_iff list_all_iff)

lemma only_apart: "only a s \<Longrightarrow> ranges_apart a b \<Longrightarrow> \<not> has b s"
  by (auto simp: only_def has_def dest: ranges_apartD)

lemma search_Cls: "search ic [Cls cl] (p, s) = (\<exists>c\<in>set s. in_class c cl)"
  by (induction s arbitrary: p) auto

lemma regex_test_Cls: "regex_test ic [Cls cl] s = has cl s"
  by (simp add: regex_test_def search_Cls has_def)

text \<open>
  A string without a word unit has no word boundary, so no expression that starts with
  \<^verbatim>\<open>\b\<close> matches it.
\<close>

lemma search_WordB_no_word:
  "\<not> is_word_char p \<Longrightarrow> \<not> has word_class s \<Longrightarrow> \<not> search ic (WordB # r) (p, s)"
  by (induction s arbitrary: p) (auto simp: word_boundary_def has_def)

lemma regex_test_WordB_no_word: "\<not> has word_class s \<Longrightarrow> \<not> regex_test ic (WordB # r) s"
  by (simp add: regex_test_def search_WordB_no_word)

lemma includes_str_subset: "includes_str s w \<Longrightarrow> set w \<subseteq> set s"
proof (induction s)
  case Nil
  then show ?case by simp
next
  case (Cons c cs)
  from Cons.prems have "prefix w (c # cs) \<or> includes_str cs w" by simp
  then show ?case
  proof
    assume "prefix w (c # cs)"
    then show ?thesis by (rule set_mono_prefix)
  next
    assume "includes_str cs w"
    then have "set w \<subseteq> set cs" by (rule Cons.IH)
    then show ?thesis by auto
  qed
qed

lemma set_toLowerCase: "set (toLowerCase s) = (\<Union>c\<in>set s. set (lower_unit c))"
  by (simp add: toLowerCase_def)

section \<open>Evaluation on the sample texts\<close>

lemmas regex_defs = regex_test_def word_boundary_def word_class_def space_class_def
  same_unit_def canonicalize_def

lemmas matcher_defs = isTransliteratedHindi_def containsHindiWord_def matchesHindiPattern_def
  soundCount_def hindiWords_def hindiPatterns_def devanagariSounds_def toLowerCase_def
  lower_unit_def asc_def

lemmas class_defs = devanagari_letters_def devanagari_digits_def arabic_letters_def
  arabic_digits_def cyrillic_small_def cyrillic_capital_def japanese_class_def
  hangul_class_def ideograph_class_def spanish_class_def french_class_def german_class_def
  italian_class_def portuguese_class_def

lemmas heuristic_defs = heuristicLanguageDetection_def class_defs spanishWords_def
  frenchWords_def germanWords_def italianWords_def portugueseWords_def

lemma konnichiwa_not_transliterated: "\<not> isTransliteratedHindi konnichiwa_sekai"
  by (simp add: konnichiwa_sekai_def matcher_defs regex_defs)

lemma heuristic_konnichiwa:
  "heuristicLanguageDetection langs konnichiwa_sekai = find_code langs (asc ''ja'')"
  by (simp add: konnichiwa_sekai_def matcher_defs regex_defs heuristic_defs)

lemma heuristic_nihao:
  "heuristicLanguageDetection langs nihao_shijie = find_code langs (asc ''ja'')"
  by (simp add: nihao_shijie_def matcher_defs regex_defs heuristic_defs)

lemma sekai_namaste_transliterated: "isTransliteratedHindi sekai_namaste"
  by (simp add: sekai_namaste_def matcher_defs regex_defs)

lemma heuristic_om: "heuristicLanguageDetection langs om_sign = find_code langs (asc ''en'')"
  by (simp add: om_sign_def matcher_defs regex_defs heuristic_defs)

lemma heuristic_marhaba: "heuristicLanguageDetection langs marhaba = find_code langs (asc ''ar'')"
  by (simp add: marhaba_def matcher_defs regex_defs heuristic_defs)

lemma el_nino_kya_transliterated: "isTransliteratedHindi el_nino_kya"
  by (simp add: el_nino_kya_def matcher_defs regex_defs)

lemma el_nino_kya_spanish:
  "has spanish_class (toLowerCase el_nino_kya)"
  "regex_test False [WordB, Alt spanishWords, WordB] (toLowerCase el_nino_kya)"
  by (simp_all add: el_nino_kya_def has_def spanish_class_def spanishWords_def toLowerCase_def
      lower_unit_def asc_def regex_defs)

lemma heuristic_xyz123:
  "heuristicLanguageDetection langs (asc ''xyz123'') = find_code langs (asc ''en'')"
  by (simp add: matcher_defs regex_defs heuristic_defs)

lemma xyz123_not_english: "\<not> isLikelyEnglish (asc ''xyz123'')"
  by (simp add: isLikelyEnglish_def englishWords_def asc_def regex_defs)

lemma encode_xyz123: "encodeURIComponent (asc ''xyz123'') = Inr (asc ''xyz123'')"
  by (simp add: asc_def unreserved_def)

section \<open>The catalog\<close>

lemma find_code_in: "find_code langs c = Some l \<Longrightarrow> l \<in> set langs \<and> code l = c"
  by (auto simp: find_code_def find_Some_iff)

lemma find_code_languages:
  "find_code languages (asc ''en'') = Some (lang ''en'' ''English'')"
  "find_code languages (asc ''hi'') = Some (lang ''hi'' ''Hindi'')"
  "find_code languages (asc ''es'') = Some (lang ''es'' ''Spanish'')"
  "find_code languages (asc ''fr'') = Some (lang ''fr'' ''French'')"
  "find_code languages (asc ''de'') = Some (lang ''de'' ''German'')"
  "find_code languages (asc ''it'') = Some (lang ''it'' ''Italian'')"
  "find_code languages (asc ''pt'') = Some (lang ''pt'' ''Portuguese'')"
  "find_code languages (asc ''ru'') = Some (lang ''ru'' ''Russian'')"
  "find_code languages (asc ''ar'') = Some (lang ''ar'' ''Arabic'')"
  "find_code languages (asc ''ja'') = Some (lang ''ja'' ''Japanese'')"
  "find_code languages (asc ''ko'') = Some (lang ''ko'' ''Korean'')"
  "find_code languages (asc ''zh'') = Some (lang ''zh'' ''Chinese'')"
  by (simp_all add: find_code_def languages_def asc_def lang_def)

text \<open>
  The list of \<^verbatim>\<open>App\<close> has no entry for Arabic, Korean, Italian or Portuguese. Were it the
  catalog of the detector, the lookup for Arabic text would yield \<^verbatim>\<open>undefined\<close>.
\<close>

lemma find_code_app_languages:
  "find_code app_languages (asc ''ar'') = None"
  "find_code app_languages (asc ''ko'') = None"
  "find_code app_languages (asc ''it'') = None"
  "find_code app_languages (asc ''pt'') = None"
  by (simp_all add: find_code_def app_languages_def asc_def)

text \<open>
  C4: the catalog has an entry for each of the codes auto, en, hi, es, fr, de, it, pt, ru,
  ar, ja, ko and zh, each entry has a display name, and no code occurs twice.
\<close>

theorem catalog_codes:
  "set (map asc [''auto'', ''en'', ''hi'', ''es'', ''fr'', ''de'', ''it'', ''pt'', ''ru'',
                 ''ar'', ''ja'', ''ko'', ''zh'']) \<subseteq> set (map code languages)
   \<and> distinct (map code languages)
   \<and> list_all (\<lambda>l. name l \<noteq> []) languages"
  by (simp add: languages_def asc_def)

theorem catalog_codes_witness:
  "asc ''ko'' \<in> set (map code languages) \<and> name (lang ''ko'' ''Korean'') \<noteq> []"
proof -
  have "asc ''ko'' \<in> set (map asc [''auto'', ''en'', ''hi'', ''es'', ''fr'', ''de'', ''it'',
      ''pt'', ''ru'', ''ar'', ''ja'', ''ko'', ''zh''])"
    by simp
  with catalog_codes have "asc ''ko'' \<in> set (map code languages)" by blast
  then show ?thesis by (simp add: lang_def asc_def)
qed

section \<open>The remote-assisted detector returns the heuristic result\<close>

lemma detectLanguage_result:
  "fst (detectLanguage langs fetch text) = Inr (heuristicLanguageDetection langs text)"
  by (auto simp: detectLanguage_def detect_try_def Let_def
      split: option.splits sum.splits payload.splits prod.splits if_splits)

lemma detectLanguage_trusted:
  "heuristicLanguageDetection langs text = Some h
     \<Longrightarrow> code h \<noteq> asc ''en'' \<or> isLikelyEnglish text
     \<Longrightarrow> detectLanguage langs fetch text = (Inr (Some h), [])"
  by (auto simp: detectLanguage_def detect_try_def)

lemma heuristic_cases:
  "heuristicLanguageDetection langs text \<in> find_code langs ` set heuristic_codes"
  by (simp add: heuristicLanguageDetection_def heuristic_codes_def Let_def)

lemma heuristic_defined:
  assumes "provides langs heuristic_codes"
  shows "\<exists>l. l \<in> set langs \<and> heuristicLanguageDetection langs text = Some l"
proof -
  from heuristic_cases[of langs "text"] obtain c
    where c: "c \<in> set heuristic_codes"
      and h: "heuristicLanguageDetection langs text = find_code langs c"
    by blast
  from assms c have "find_code langs c \<noteq> None" by (simp add: provides_def list_all_iff)
  then obtain l where l: "find_code langs c = Some l" by blast
  from find_code_in[OF l] h l show ?thesis by simp
qed

lemma languages_provides: "provides languages heuristic_codes"
  by (simp add: provides_def heuristic_codes_def find_code_languages)

text \<open>
  C10: the value that \<^verbatim>\<open>detectLanguage\<close> resolves to is the value of
  \<^verbatim>\<open>heuristicLanguageDetection\<close> on the same text, whatever the remote service does; so two
  calls on the same text resolve to the same value.
\<close>

theorem detectLanguage_is_heuristic:
  "fst (detectLanguage langs fetch text) = Inr (heuristicLanguageDetection langs text)
   \<and> fst (detectLanguage langs fetch' text) = fst (detectLanguage langs fetch text)"
  by (simp add: detectLanguage_result)

theorem detectLanguage_is_heuristic_witness:
  "fst (detectLanguage languages http_error (asc ''xyz123'')) = Inr (Some (lang ''en'' ''English''))
   \<and> fst (detectLanguage languages no_result (asc ''xyz123''))
       = fst (detectLanguage languages http_error (asc ''xyz123''))"
  using detectLanguage_is_heuristic[of languages http_error "asc ''xyz123''" no_result]
  by (simp add: heuristic_xyz123 find_code_languages)

text \<open>
  C6: when the heuristic result has a code other than \<open>en\<close>, \<^verbatim>\<open>detectLanguage\<close> returns that
  result and fetches nothing.
\<close>

theorem trusted_without_remote_call:
  "heuristicLanguageDetection langs text = Some h \<Longrightarrow> code h \<noteq> asc ''en''
     \<Longrightarrow> detectLanguage langs fetch text = (Inr (Some h), [])"
  by (simp add: detectLanguage_trusted)

theorem trusted_without_remote_call_witness:
  "heuristicLanguageDetection languages marhaba = Some (lang ''ar'' ''Arabic'')
   \<and> code (lang ''ar'' ''Arabic'') \<noteq> asc ''en''
   \<and> detectLanguage languages no_result marhaba = (Inr (Some (lang ''ar'' ''Arabic'')), [])"
proof -
  have h: "heuristicLanguageDetection languages marhaba = Some (lang ''ar'' ''Arabic'')"
    by (simp add: heuristic_marhaba find_code_languages)
  have c: "code (lang ''ar'' ''Arabic'') \<noteq> asc ''en''"
    by (simp add: lang_def asc_def)
  from trusted_without_remote_call[OF h c, of no_result] h c show ?thesis by simp
qed

text \<open>
  C2: \<^verbatim>\<open>detectLanguage\<close> never throws, whatever the text and whatever the remote service
  does, and it resolves to an entry of the catalog: the lookup at the end of every branch of
  the heuristic succeeds in a catalog that has the codes the heuristic looks up, as the
  catalog of the specification has.
\<close>

theorem detectLanguage_total:
  "provides langs heuristic_codes
     \<Longrightarrow> \<exists>l. l \<in> set langs \<and> heuristicLanguageDetection langs text = Some l
             \<and> fst (detectLanguage langs fetch text) = Inr (Some l)"
proof -
  assume "provides langs heuristic_codes"
  from heuristic_defined[OF this, of "text"] obtain l
    where "l \<in> set langs" "heuristicLanguageDetection langs text = Some l"
    by blast
  then show ?thesis by (auto simp: detectLanguage_result)
qed

theorem detectLanguage_total_witness:
  "provides languages heuristic_codes
   \<and> fst (detectLanguage languages offline marhaba) = Inr (Some (lang ''ar'' ''Arabic''))"
  using detectLanguage_total[OF languages_provides, of marhaba offline] languages_provides
  by (auto simp: heuristic_marhaba find_code_languages)

text \<open>
  With the list of \<^verbatim>\<open>App\<close> in the place of the catalog the lookup for Arabic text fails, the
  read of \<^verbatim>\<open>heuristicResult.code\<close> throws, and the promise resolves to \<^verbatim>\<open>undefined\<close>.
\<close>

lemma app_languages_arabic:
  "\<not> provides app_languages heuristic_codes"
  "detectLanguage app_languages fetch marhaba = (Inr None, [])"
  by (simp_all add: provides_def heuristic_codes_def find_code_app_languages
      detectLanguage_def detect_try_def heuristic_marhaba)

section \<open>The transliteration tier comes first\<close>

lemma heuristic_translit:
  "isTransliteratedHindi text
     \<Longrightarrow> heuristicLanguageDetection langs text = find_code langs (asc ''hi'')"
  by (simp add: heuristicLanguageDetection_def)

text \<open>
  C7: when the transliteration matcher accepts a text, \<^verbatim>\<open>detectLanguage\<close> returns the
  catalog's entry for \<open>hi\<close>, Hindi, whatever else the text contains: native-script units,
  diacritics or function words of a Latin-script language.
\<close>

theorem transliteration_first:
  "isTransliteratedHindi text
     \<Longrightarrow> fst (detectLanguage langs fetch text) = Inr (find_code langs (asc ''hi''))"
  by (simp add: detectLanguage_result heuristic_translit)

theorem transliteration_first_witness:
  "isTransliteratedHindi el_nino_kya
   \<and> has spanish_class (toLowerCase el_nino_kya)
   \<and> regex_test False [WordB, Alt spanishWords, WordB] (toLowerCase el_nino_kya)
   \<and> fst (detectLanguage languages offline el_nino_kya) = Inr (Some (lang ''hi'' ''Hindi''))"
  using transliteration_first[OF el_nino_kya_transliterated, of languages offline]
  by (simp add: el_nino_kya_transliterated el_nino_kya_spanish find_code_languages)


section \<open>Texts without word units\<close>

lemma hindiWords_first: "list_all (\<lambda>w. w \<noteq> [] \<and> in_class (hd w) word_class) hindiWords"
  by (simp add: hindiWords_def asc_def word_class_def)

lemma devanagariSounds_first:
  "list_all (\<lambda>w. w \<noteq> [] \<and> in_class (hd w) word_class) devanagariSounds"
  by (simp add: devanagariSounds_def asc_def word_class_def)

lemma includes_word_unit:
  assumes "includes_str s w" and "w \<noteq> [] \<and> in_class (hd w) word_class"
  shows "has word_class s"
proof -
  from assms(2) have "hd w \<in> set w" by simp
  with includes_str_subset[OF assms(1)] have "hd w \<in> set s" by blast
  with assms(2) show ?thesis by (auto simp: has_def)
qed

lemma no_word_containsHindiWord: "\<not> has word_class s \<Longrightarrow> \<not> containsHindiWord s"
  using hindiWords_first
  by (auto simp: containsHindiWord_def list_ex_iff list_all_iff dest: includes_word_unit)

lemma hindiPatterns_start: "list_all (\<lambda>r. r \<noteq> [] \<and> hd r = WordB) hindiPatterns"
  by (simp add: hindiPatterns_def)

lemma no_word_matchesHindiPattern:
  assumes "\<not> has word_class s"
  shows "\<not> matchesHindiPattern s"
proof
  assume "matchesHindiPattern s"
  then obtain r where r: "r \<in> set hindiPatterns" "regex_test False r s"
    by (auto simp: matchesHindiPattern_def list_ex_iff)
  from r(1) hindiPatterns_start have "r \<noteq> [] \<and> hd r = WordB" by (simp add: list_all_iff)
  then obtain r' where "r = WordB # r'" by (cases r) auto
  with r(2) regex_test_WordB_no_word[OF assms] show False by blast
qed

lemma no_word_soundCount: "\<not> has word_class s \<Longrightarrow> soundCount s = 0"
  using devanagariSounds_first
  by (auto simp: soundCount_def list_all_iff filter_empty_conv dest: includes_word_unit)

lemma no_word_isTransliteratedHindi:
  "\<not> has word_class (toLowerCase text) \<Longrightarrow> \<not> isTransliteratedHindi text"
  by (simp add: isTransliteratedHindi_def no_word_containsHindiWord
      no_word_matchesHindiPattern no_word_soundCount)

section \<open>Blank texts\<close>

lemma lower_unit_space: "in_class c space_class \<Longrightarrow> lower_unit c = [c]"
  by (auto simp: space_class_def lower_unit_def)

lemma toLowerCase_blank: "only space_class s \<Longrightarrow> toLowerCase s = s"
  by (induction s) (simp_all add: toLowerCase_def only_def lower_unit_space)

lemma space_apart:
  "ranges_apart space_class word_class"
  "ranges_apart space_class devanagari_letters"
  "ranges_apart space_class devanagari_digits"
  "ranges_apart space_class arabic_letters"
  "ranges_apart space_class arabic_digits"
  "ranges_apart space_class cyrillic_small"
  "ranges_apart space_class cyrillic_capital"
  "ranges_apart space_class japanese_class"
  "ranges_apart space_class hangul_class"
  "ranges_apart space_class ideograph_class"
  "ranges_apart space_class spanish_class"
  "ranges_apart space_class french_class"
  "ranges_apart space_class german_class"
  "ranges_apart space_class italian_class"
  "ranges_apart space_class portuguese_class"
  by (simp_all add: ranges_apart_def space_class_def word_class_def class_defs)

lemma heuristic_blank:
  assumes "only space_class s"
  shows "\<not> isTransliteratedHindi s"
    and "heuristicLanguageDetection langs s = find_code langs (asc ''en'')"
proof -
  have low: "toLowerCase s = s" using assms by (rule toLowerCase_blank)
  note no = space_apart[THEN only_apart[OF assms]]
  show nt: "\<not> isTransliteratedHindi s"
    by (rule no_word_isTransliteratedHindi) (simp add: low no)
  show "heuristicLanguageDetection langs s = find_code langs (asc ''en'')"
    by (simp add: heuristicLanguageDetection_def low nt regex_test_Cls no
        regex_test_WordB_no_word)
qed

text \<open>
  C9: on the empty string and on every string of white space only, the transliteration
  matcher returns false and the heuristic falls through every test to its last line, the
  lookup of the default language, English (code \<open>en\<close>).
\<close>

theorem blank_is_default:
  "only space_class s
     \<Longrightarrow> \<not> isTransliteratedHindi s
         \<and> heuristicLanguageDetection langs s = find_code langs (asc ''en'')"
  by (simp add: heuristic_blank)

theorem blank_is_default_witness:
  "only space_class [] \<and> \<not> isTransliteratedHindi []
   \<and> heuristicLanguageDetection languages [] = Some (lang ''en'' ''English'')
   \<and> only space_class blanks \<and> \<not> isTransliteratedHindi blanks
   \<and> heuristicLanguageDetection languages blanks = Some (lang ''en'' ''English'')"
proof -
  have e: "only space_class []" by (simp add: only_def)
  have b: "only space_class blanks" by (simp add: only_def blanks_def space_class_def)
  from blank_is_default[OF e, of languages] blank_is_default[OF b, of languages] e b
  show ?thesis by (simp add: find_code_languages)
qed


section \<open>The script tier\<close>

lemma has_mono: "has a s \<Longrightarrow> (\<And>c. in_class c a \<Longrightarrow> in_class c b) \<Longrightarrow> has b s"
  by (auto simp: has_def)

lemma lower_unit_cyrillic:
  "c' \<in> set (lower_unit c) \<Longrightarrow> in_class c' cyrillic_small \<Longrightarrow> in_class c cyrillic_letters"
  by (auto simp: lower_unit_def cyrillic_small_def cyrillic_letters_def split: if_splits)

lemma has_lower_cyrillic:
  "has cyrillic_small (toLowerCase s) \<Longrightarrow> has cyrillic_letters s"
  by (auto simp: has_def set_toLowerCase dest: lower_unit_cyrillic)

lemma heuristic_devanagari:
  "has devanagari_tested text
     \<Longrightarrow> heuristicLanguageDetection langs text = find_code langs (asc ''hi'')"
proof -
  assume "has devanagari_tested text"
  then have "has devanagari_letters text \<or> has devanagari_digits text"
    by (auto simp: has_def devanagari_tested_def devanagari_letters_def devanagari_digits_def)
  then show ?thesis
    by (cases "isTransliteratedHindi text")
      (simp_all add: heuristicLanguageDetection_def Let_def regex_test_Cls)
qed

lemma heuristic_japanese:
  assumes "has ideograph_class text" and "\<not> isTransliteratedHindi text"
    and "\<not> has earlier_scripts text"
  shows "heuristicLanguageDetection langs text = find_code langs (asc ''ja'')"
proof -
  have e: "\<not> has cl text" if "\<And>c. in_class c cl \<Longrightarrow> in_class c earlier_scripts" for cl
    using assms(3) has_mono[of cl "text" earlier_scripts] that by blast
  have 1: "\<not> has devanagari_letters text" "\<not> has devanagari_digits text"
    "\<not> has arabic_letters text" "\<not> has arabic_digits text" "\<not> has cyrillic_capital text"
    "\<not> has cyrillic_letters text"
    by (rule e, simp add: earlier_scripts_def class_defs cyrillic_letters_def)+
  from 1(6) have 2: "\<not> has cyrillic_small (toLowerCase text)"
    by (blast dest: has_lower_cyrillic)
  have 3: "has japanese_class text"
    by (rule has_mono[OF assms(1)]) (simp add: ideograph_class_def japanese_class_def)
  show ?thesis
    by (simp add: heuristicLanguageDetection_def Let_def regex_test_Cls assms(2) 1 2 3)
qed

text \<open>
  C1, as amended: a text with a CJK ideograph (U+4E00 to U+9FAF) and a kana character,
  which the transliteration matcher rejects and which has no unit in the Devanagari,
  Arabic and Cyrillic ranges that are tested before, is detected as Japanese:
  \<^verbatim>\<open>detectLanguage\<close> returns the catalog's entry for \<open>ja\<close>.
\<close>

theorem ideographs_with_kana_are_japanese:
  "has ideograph_class text \<Longrightarrow> has kana_class text \<Longrightarrow> \<not> isTransliteratedHindi text
     \<Longrightarrow> \<not> has earlier_scripts text
     \<Longrightarrow> fst (detectLanguage langs fetch text) = Inr (find_code langs (asc ''ja''))"
  by (simp add: detectLanguage_result heuristic_japanese)

theorem ideographs_with_kana_are_japanese_witness:
  "has ideograph_class konnichiwa_sekai \<and> has kana_class konnichiwa_sekai
   \<and> \<not> isTransliteratedHindi konnichiwa_sekai \<and> \<not> has earlier_scripts konnichiwa_sekai
   \<and> fst (detectLanguage languages offline konnichiwa_sekai)
       = Inr (Some (lang ''ja'' ''Japanese''))"
proof -
  have i: "has ideograph_class konnichiwa_sekai"
    by (simp add: has_def konnichiwa_sekai_def ideograph_class_def)
  have k: "has kana_class konnichiwa_sekai"
    by (simp add: has_def konnichiwa_sekai_def kana_class_def)
  have e: "\<not> has earlier_scripts konnichiwa_sekai"
    by (simp add: has_def konnichiwa_sekai_def earlier_scripts_def)
  from ideographs_with_kana_are_japanese[OF i k konnichiwa_not_transliterated e,
      of languages offline] i k e konnichiwa_not_transliterated
  show ?thesis by (simp add: find_code_languages)
qed

text \<open>
  C1 fails as stated: a text with ideographs and a kana character that also holds a
  romanized Hindi word is detected as Hindi, and a text of ideographs without kana or Hangul
  is detected as Japanese, not Chinese.
\<close>

theorem ideographs_counterexample:
  "has ideograph_class sekai_namaste \<and> has kana_class sekai_namaste
   \<and> fst (detectLanguage languages offline sekai_namaste) = Inr (Some (lang ''hi'' ''Hindi''))
   \<and> has ideograph_class nihao_shijie \<and> \<not> has kana_class nihao_shijie
   \<and> \<not> has hangul_class nihao_shijie
   \<and> fst (detectLanguage languages offline nihao_shijie) = Inr (Some (lang ''ja'' ''Japanese''))
   \<and> lang ''hi'' ''Hindi'' \<noteq> lang ''ja'' ''Japanese''
   \<and> lang ''ja'' ''Japanese'' \<noteq> lang ''zh'' ''Chinese''"
proof -
  have "has ideograph_class sekai_namaste \<and> has kana_class sekai_namaste"
    by (simp add: has_def sekai_namaste_def ideograph_class_def kana_class_def)
  moreover have "fst (detectLanguage languages offline sekai_namaste)
      = Inr (Some (lang ''hi'' ''Hindi''))"
    by (simp add: detectLanguage_result heuristic_translit sekai_namaste_transliterated
        find_code_languages)
  moreover have "has ideograph_class nihao_shijie \<and> \<not> has kana_class nihao_shijie
      \<and> \<not> has hangul_class nihao_shijie"
    by (simp add: has_def nihao_shijie_def ideograph_class_def kana_class_def hangul_class_def)
  moreover have "fst (detectLanguage languages offline nihao_shijie)
      = Inr (Some (lang ''ja'' ''Japanese''))"
    by (simp add: detectLanguage_result heuristic_nihao find_code_languages)
  moreover have "lang ''hi'' ''Hindi'' \<noteq> lang ''ja'' ''Japanese''
      \<and> lang ''ja'' ''Japanese'' \<noteq> lang ''zh'' ''Chinese''"
    by (simp add: lang_def asc_def)
  ultimately show ?thesis by blast
qed

text \<open>
  C5, as amended: a text with at least one Devanagari letter in U+0905 to U+0939 or digit in
  U+0966 to U+096F is detected as Hindi: \<^verbatim>\<open>detectLanguage\<close> returns the catalog's entry
  for \<open>hi\<close>.
\<close>

theorem devanagari_letters_and_digits_are_hindi:
  "has devanagari_tested text
     \<Longrightarrow> fst (detectLanguage langs fetch text) = Inr (find_code langs (asc ''hi''))"
  by (simp add: detectLanguage_result heuristic_devanagari)

theorem devanagari_letters_and_digits_are_hindi_witness:
  "namaste_devanagari \<noteq> [] \<and> only devanagari_block namaste_devanagari
   \<and> has devanagari_tested namaste_devanagari
   \<and> fst (detectLanguage languages offline namaste_devanagari)
       = Inr (Some (lang ''hi'' ''Hindi''))"
proof -
  have h: "has devanagari_tested namaste_devanagari"
    by (simp add: has_def namaste_devanagari_def devanagari_tested_def)
  have o: "namaste_devanagari \<noteq> [] \<and> only devanagari_block namaste_devanagari"
    by (simp add: only_def namaste_devanagari_def devanagari_block_def)
  from devanagari_letters_and_digits_are_hindi[OF h, of languages offline] h o
  show ?thesis by (simp add: find_code_languages)
qed

text \<open>
  C5 fails as stated: the sign U+0950 alone is a non-empty text of the Devanagari block, and
  it is detected as English.
\<close>

theorem devanagari_block_counterexample:
  "om_sign \<noteq> [] \<and> only devanagari_block om_sign
   \<and> fst (detectLanguage languages offline om_sign) = Inr (Some (lang ''en'' ''English''))
   \<and> lang ''en'' ''English'' \<noteq> lang ''hi'' ''Hindi''"
proof -
  have "om_sign \<noteq> [] \<and> only devanagari_block om_sign"
    by (simp add: only_def om_sign_def devanagari_block_def)
  moreover have "fst (detectLanguage languages offline om_sign)
      = Inr (Some (lang ''en'' ''English''))"
    by (simp add: detectLanguage_result heuristic_om find_code_languages)
  moreover have "lang ''en'' ''English'' \<noteq> lang ''hi'' ''Hindi''"
    by (simp add: lang_def asc_def)
  ultimately show ?thesis by blast
qed

section \<open>An inconclusive remote call\<close>

text \<open>
  C3, as amended: when the heuristic result is English, the English word test fails and
  the remote call is inconclusive, \<^verbatim>\<open>detectLanguage\<close> returns the heuristic result, English,
  after the one request to the remote service (none when the text cannot be encoded).
\<close>

theorem inconclusive_returns_heuristic:
  "heuristicLanguageDetection langs text = Some h \<Longrightarrow> code h = asc ''en''
     \<Longrightarrow> \<not> isLikelyEnglish text \<Longrightarrow> always_inconclusive fetch
     \<Longrightarrow> fst (detectLanguage langs fetch text) = Inr (Some h)
         \<and> snd (detectLanguage langs fetch text) =
             (case encodeURIComponent text of
                Inl e \<Rightarrow> []
              | Inr q \<Rightarrow> [baseUrl @ asc ''?q='' @ q @ asc ''&langpair=auto|en''])"
  by (auto simp: detectLanguage_def detect_try_def Let_def split: sum.splits payload.splits)

lemma inconclusive_samples:
  "always_inconclusive offline" "always_inconclusive http_error" "always_inconclusive no_result"
  by (simp_all add: always_inconclusive_def inconclusive_def offline_def http_error_def
      no_result_def)

lemma detect_try_xyz123:
  "detect_try languages fetch (asc ''xyz123'') =
     (case fetch (baseUrl @ asc ''?q='' @ asc ''xyz123'' @ asc ''&langpair=auto|en'') of
        Inl e \<Rightarrow> (Inl e, [baseUrl @ asc ''?q='' @ asc ''xyz123'' @ asc ''&langpair=auto|en''])
      | Inr response \<Rightarrow>
          if \<not> ok response
          then (Inr (Some (lang ''en'' ''English'')),
                [baseUrl @ asc ''?q='' @ asc ''xyz123'' @ asc ''&langpair=auto|en''])
          else (case json response of
              Inl e \<Rightarrow> (Inl e, [baseUrl @ asc ''?q='' @ asc ''xyz123'' @ asc ''&langpair=auto|en''])
            | Inr Null \<Rightarrow>
                (Inl TypeError, [baseUrl @ asc ''?q='' @ asc ''xyz123'' @ asc ''&langpair=auto|en''])
            | Inr (Data status rdata) \<Rightarrow>
                (Inr (Some (lang ''en'' ''English'')),
                 [baseUrl @ asc ''?q='' @ asc ''xyz123'' @ asc ''&langpair=auto|en''])))"
  by (simp add: detect_try_def Let_def heuristic_xyz123 find_code_languages xyz123_not_english
      encode_xyz123 lang_def split: sum.splits payload.splits)

theorem inconclusive_returns_heuristic_witness:
  "heuristicLanguageDetection languages (asc ''xyz123'') = Some (lang ''en'' ''English'')
   \<and> code (lang ''en'' ''English'') = asc ''en'' \<and> \<not> isLikelyEnglish (asc ''xyz123'')
   \<and> always_inconclusive no_result
   \<and> fst (detectLanguage languages no_result (asc ''xyz123''))
       = Inr (Some (lang ''en'' ''English''))"
proof -
  have h: "heuristicLanguageDetection languages (asc ''xyz123'') = Some (lang ''en'' ''English'')"
    by (simp add: heuristic_xyz123 find_code_languages)
  have c: "code (lang ''en'' ''English'') = asc ''en''" by (simp add: lang_def)
  from inconclusive_returns_heuristic[OF h c xyz123_not_english inconclusive_samples(3)]
    h c xyz123_not_english inconclusive_samples(3)
  show ?thesis by blast
qed

text \<open>
  C3 fails as stated: for the text \<open>xyz123\<close> the heuristic result is English, the English
  word test fails, and with an HTTP error, with a body without result and with no network
  \<^verbatim>\<open>detectLanguage\<close> resolves to English after one request.
\<close>

theorem inconclusive_counterexample:
  "heuristicLanguageDetection languages (asc ''xyz123'') = Some (lang ''en'' ''English'')
   \<and> \<not> isLikelyEnglish (asc ''xyz123'')
   \<and> always_inconclusive http_error \<and> always_inconclusive no_result
   \<and> always_inconclusive offline
   \<and> detectLanguage languages http_error (asc ''xyz123'')
       = (Inr (Some (lang ''en'' ''English'')),
          [baseUrl @ asc ''?q='' @ asc ''xyz123'' @ asc ''&langpair=auto|en''])
   \<and> detectLanguage languages no_result (asc ''xyz123'')
       = (Inr (Some (lang ''en'' ''English'')),
          [baseUrl @ asc ''?q='' @ asc ''xyz123'' @ asc ''&langpair=auto|en''])
   \<and> detectLanguage languages offline (asc ''xyz123'')
       = (Inr (Some (lang ''en'' ''English'')),
          [baseUrl @ asc ''?q='' @ asc ''xyz123'' @ asc ''&langpair=auto|en''])"
  by (simp add: detectLanguage_def detect_try_xyz123 heuristic_xyz123 find_code_languages
      xyz123_not_english inconclusive_samples offline_def http_error_def no_result_def)

section \<open>The phonetic threshold\<close>

lemma devanagariSounds_distinct: "distinct devanagariSounds"
  by (simp add: devanagariSounds_def asc_def)

lemma fragments_in_filter:
  "fragments_in lowerText = set (filter (includes_str lowerText) devanagariSounds)"
  by (auto simp: fragments_in_def)

lemma soundCount_card: "soundCount lowerText = card (fragments_in lowerText)"
proof -
  have "distinct (filter (includes_str lowerText) devanagariSounds)"
    using devanagariSounds_distinct by simp
  then have "card (set (filter (includes_str lowerText) devanagariSounds))
      = length (filter (includes_str lowerText) devanagariSounds)"
    by (rule distinct_card)
  then show ?thesis by (simp only: soundCount_def fragments_in_filter)
qed

text \<open>
  C8: when the lowered text includes no vocabulary word and matches no pattern, the matcher
  returns true exactly when at least two distinct fragments of the phonetic list occur in
  the lowered text.
\<close>

theorem phonetic_threshold:
  "\<not> containsHindiWord (toLowerCase text) \<Longrightarrow> \<not> matchesHindiPattern (toLowerCase text)
     \<Longrightarrow> isTransliteratedHindi text = (2 \<le> card (fragments_in (toLowerCase text)))"
  by (simp add: isTransliteratedHindi_def soundCount_card)

lemma sh_eval:
  "\<not> containsHindiWord (toLowerCase (asc ''sh''))"
  "\<not> matchesHindiPattern (toLowerCase (asc ''sh''))"
  "fragments_in (toLowerCase (asc ''sh'')) = {asc ''sh''}"
  by (simp_all add: fragments_in_filter matcher_defs regex_defs)

lemma shoo_eval:
  "\<not> containsHindiWord (toLowerCase (asc ''Shoo''))"
  "\<not> matchesHindiPattern (toLowerCase (asc ''Shoo''))"
  "fragments_in (toLowerCase (asc ''Shoo'')) = {asc ''sh'', asc ''oo''}"
  by (simp_all add: fragments_in_filter matcher_defs regex_defs)

theorem phonetic_threshold_witness:
  "\<not> containsHindiWord (toLowerCase (asc ''sh'')) \<and> \<not> matchesHindiPattern (toLowerCase (asc ''sh''))
   \<and> card (fragments_in (toLowerCase (asc ''sh''))) = 1 \<and> \<not> isTransliteratedHindi (asc ''sh'')
   \<and> \<not> containsHindiWord (toLowerCase (asc ''Shoo''))
   \<and> \<not> matchesHindiPattern (toLowerCase (asc ''Shoo''))
   \<and> card (fragments_in (toLowerCase (asc ''Shoo''))) = 2 \<and> isTransliteratedHindi (asc ''Shoo'')"
proof -
  have 1: "card (fragments_in (toLowerCase (asc ''sh''))) = 1"
    by (simp add: sh_eval)
  have 2: "card (fragments_in (toLowerCase (asc ''Shoo''))) = 2"
    unfolding shoo_eval(3) by (simp add: asc_def)
  from phonetic_threshold[OF sh_eval(1,2)] phonetic_threshold[OF shoo_eval(1,2)] 1 2
    sh_eval(1,2) shoo_eval(1,2)
  show ?thesis by simp
qed

end
